theory Spec2Isabelle
  imports Complex_Main
begin

section \<open>Values exchanged with the handlers\<close>

text \<open>
  The handlers of \<^verbatim>\<open>src/src/deep_research_agent/functions.py\<close> receive and return
  structured values: \<^verbatim>\<open>None\<close>, booleans, unbounded integers, floats, strings, lists and
  dictionaries keyed by strings.  A dictionary is an association list; looking a key up
  is \<open>map_of\<close>, and \<^verbatim>\<open>key in d\<close> is \<open>map_of d key \<noteq> None\<close>.

  A Python float is an IEEE binary64 value.  It is modelled by its exact rational value
  when finite, or one of the two infinities or NaN; the sign of a zero is not tracked.
\<close>

datatype pyfloat = FFinite rat | FPosInf | FNegInf | FNaN

datatype pyval =
    VNone
  | VBool bool
  | VInt int
  | VFloat pyfloat
  | VStr string
  | VList "pyval list"
  | VDict "(string \<times> pyval) list"

text \<open>The exceptions the built-ins used by the handlers can raise, with their message.\<close>

datatype py_exception =
    ValueError string
  | TypeError string
  | OverflowError string
  | ZeroDivisionError string

text \<open>
  The execution context \<^verbatim>\<open>ctx\<close> is opaque to the handlers: they only test its truth
  value and print it with \<^verbatim>\<open>str(ctx)\<close>.
\<close>

record exec_context =
  ctx_truthy :: bool
  ctx_str :: string

definition bind_exc :: "'e + 'a \<Rightarrow> ('a \<Rightarrow> 'e + 'b) \<Rightarrow> 'e + 'b" where
  "bind_exc r f = (case r of Inl e \<Rightarrow> Inl e | Inr x \<Rightarrow> f x)"

section \<open>Binary64 arithmetic used by \<^verbatim>\<open>calculate_metrics\<close>\<close>

text \<open>
  Rounding to the nearest binary64 value, ties to even: 53 bits of precision, the least
  exponent \<open>-1022\<close> (below it the spacing stays \<open>2\<^sup>-\<^sup>1\<^sup>0\<^sup>7\<^sup>4\<close>), and overflow to an
  infinity when the rounded magnitude reaches \<open>2\<^sup>1\<^sup>0\<^sup>2\<^sup>4\<close>.
\<close>

text \<open>\<^verbatim>\<open>int.bit_length\<close> of a positive integer (0 for the others).\<close>

function bit_length :: "int \<Rightarrow> nat" where
  "bit_length n = (if n \<le> 0 then 0 else Suc (bit_length (n div 2)))"
  by pat_completeness auto
termination
  by (relation "measure nat") auto

declare bit_length.simps [simp del]

definition pow2 :: "int \<Rightarrow> rat" where
  "pow2 k = (if 0 \<le> k then 2 ^ nat k else 1 / 2 ^ nat (- k))"

definition floor_log2 :: "rat \<Rightarrow> int" where
  "floor_log2 a =
     (if 1 \<le> a then int (bit_length \<lfloor>a\<rfloor>) - 1
      else - int (bit_length (\<lceil>1 / a\<rceil> - 1)))"

definition round_half_even :: "rat \<Rightarrow> int" where
  "round_half_even x =
     (if x - of_int \<lfloor>x\<rfloor> < 1 / 2 then \<lfloor>x\<rfloor>
      else if 1 / 2 < x - of_int \<lfloor>x\<rfloor> then \<lfloor>x\<rfloor> + 1
      else if even \<lfloor>x\<rfloor> then \<lfloor>x\<rfloor> else \<lfloor>x\<rfloor> + 1)"

definition ulp_of :: "rat \<Rightarrow> rat" where
  "ulp_of a = pow2 (max (floor_log2 a) (- 1022) - 52)"

definition round_magnitude :: "rat \<Rightarrow> rat" where
  "round_magnitude a = of_int (round_half_even (a / ulp_of a)) * ulp_of a"

definition round_double :: "rat \<Rightarrow> pyfloat" where
  "round_double q =
     (if q = 0 then FFinite 0
      else if pow2 1024 \<le> round_magnitude \<bar>q\<bar> then (if 0 < q then FPosInf else FNegInf)
      else FFinite (if 0 < q then round_magnitude \<bar>q\<bar> else - round_magnitude \<bar>q\<bar>))"

text \<open>\<^verbatim>\<open>float(n)\<close> for an integer: the nearest double, or OverflowError.\<close>

definition float_of_int :: "int \<Rightarrow> py_exception + pyfloat" where
  "float_of_int n =
     (case round_double (of_int n) of
        FFinite r \<Rightarrow> Inr (FFinite r)
      | _ \<Rightarrow> Inl (OverflowError ''int too large to convert to float''))"

fun fadd :: "pyfloat \<Rightarrow> pyfloat \<Rightarrow> pyfloat" where
  "fadd FNaN _ = FNaN"
| "fadd _ FNaN = FNaN"
| "fadd FPosInf FNegInf = FNaN"
| "fadd FNegInf FPosInf = FNaN"
| "fadd FPosInf _ = FPosInf"
| "fadd _ FPosInf = FPosInf"
| "fadd FNegInf _ = FNegInf"
| "fadd _ FNegInf = FNegInf"
| "fadd (FFinite a) (FFinite b) = round_double (a + b)"

text \<open>\<^verbatim>\<open>x / y\<close> on floats: a zero divisor raises, whatever the dividend.\<close>

fun fquot :: "pyfloat \<Rightarrow> pyfloat \<Rightarrow> pyfloat" where
  "fquot FNaN _ = FNaN"
| "fquot _ FNaN = FNaN"
| "fquot (FFinite a) (FFinite b) = round_double (a / b)"
| "fquot (FFinite a) _ = FFinite 0"
| "fquot FPosInf (FFinite b) = (if 0 < b then FPosInf else FNegInf)"
| "fquot FNegInf (FFinite b) = (if 0 < b then FNegInf else FPosInf)"
| "fquot _ _ = FNaN"

definition fdiv :: "pyfloat \<Rightarrow> pyfloat \<Rightarrow> py_exception + pyfloat" where
  "fdiv x y =
     (if y = FFinite 0 then Inl (ZeroDivisionError ''float division by zero'')
      else Inr (fquot x y))"

text \<open>\<^verbatim>\<open>x < y\<close> on floats: every comparison with NaN is false.\<close>

fun flt :: "pyfloat \<Rightarrow> pyfloat \<Rightarrow> bool" where
  "flt FNaN _ = False"
| "flt _ FNaN = False"
| "flt (FFinite a) (FFinite b) = (a < b)"
| "flt (FFinite a) FPosInf = True"
| "flt (FFinite a) FNegInf = False"
| "flt FPosInf _ = False"
| "flt FNegInf FNegInf = False"
| "flt FNegInf _ = True"

text \<open>
  \<^verbatim>\<open>sum(numbers)\<close> starts from the integer 0 and adds from left to right, rounding after
  each addition.  (From CPython 3.12 on, \<^verbatim>\<open>sum\<close> compensates the rounding error of float
  additions; the two agree whenever every partial sum is itself a double.)
\<close>

definition py_sum :: "pyfloat list \<Rightarrow> pyfloat" where
  "py_sum numbers = foldl fadd (FFinite 0) numbers"

text \<open>
  \<^verbatim>\<open>min\<close> and \<^verbatim>\<open>max\<close> keep the first element and replace it by a later one that
  compares strictly smaller (greater); on an empty list they raise ValueError.
\<close>

definition py_min :: "pyfloat list \<Rightarrow> py_exception + pyfloat" where
  "py_min numbers =
     (case numbers of
        [] \<Rightarrow> Inl (ValueError ''min() arg is an empty sequence'')
      | x # xs \<Rightarrow> Inr (foldl (\<lambda>cur item. if flt item cur then item else cur) x xs))"

definition py_max :: "pyfloat list \<Rightarrow> py_exception + pyfloat" where
  "py_max numbers =
     (case numbers of
        [] \<Rightarrow> Inl (ValueError ''max() arg is an empty sequence'')
      | x # xs \<Rightarrow> Inr (foldl (\<lambda>cur item. if flt cur item then item else cur) x xs))"

text \<open>
  What the Python runtime contributes to \<^verbatim>\<open>float(x)\<close> beyond integer rounding is taken
  as a parameter: the parser of float literals (\<open>Inl\<close> is the message of the ValueError it
  raises) and the message of the TypeError raised for a value that is no number and no
  string.

  Python checks no annotation: called with an argument that is not of the annotated type,
  a handler runs its body on that value, and what the built-ins then do depends on the
  value's type.  The handlers are translated at their annotated types; the outcome of a
  call with another type of argument is the third parameter, \<open>untyped_call\<close> (handler
  name, context, keyword arguments), about which nothing is assumed.
\<close>

record py_runtime =
  str_to_float :: "string \<Rightarrow> string + pyfloat"
  float_type_error :: "pyval \<Rightarrow> string"
  untyped_call :: "string \<Rightarrow> exec_context \<Rightarrow> (string \<times> pyval) list \<Rightarrow> string + pyval"

fun py_float :: "py_runtime \<Rightarrow> pyval \<Rightarrow> py_exception + pyfloat" where
  "py_float rt (VBool b) = Inr (FFinite (if b then 1 else 0))"
| "py_float rt (VInt n) = float_of_int n"
| "py_float rt (VFloat f) = Inr f"
| "py_float rt (VStr s) =
     (case str_to_float rt s of Inl msg \<Rightarrow> Inl (ValueError msg) | Inr f \<Rightarrow> Inr f)"
| "py_float rt v = Inl (TypeError (float_type_error rt v))"

text \<open>The comprehension \<^verbatim>\<open>[float(x) for x in data_points]\<close>: the first exception ends it.\<close>

fun floats_of :: "py_runtime \<Rightarrow> pyval list \<Rightarrow> py_exception + pyfloat list" where
  "floats_of rt [] = Inr []"
| "floats_of rt (x # xs) =
     bind_exc (py_float rt x) (\<lambda>f. bind_exc (floats_of rt xs) (\<lambda>fs. Inr (f # fs)))"

section \<open>The handlers\<close>

subsection \<open>\<^verbatim>\<open>process_task\<close>\<close>

definition process_task :: "exec_context \<Rightarrow> string \<Rightarrow> (string \<times> pyval) list \<Rightarrow> pyval" where
  "process_task ctx task_id task_data =
     VDict
       [(''task_id'', VStr task_id),
        (''original_data'', VDict task_data),
        (''status'', VStr ''completed''),
        (''processed_at'', VStr (if ctx_truthy ctx then ctx_str ctx else ''unknown_context'')),
        (''message'', VStr (''Successfully processed task '' @ task_id))]"

subsection \<open>\<^verbatim>\<open>validate_input\<close>\<close>

definition default_rules :: "pyval list" where
  "default_rules = [VStr ''required_fields'', VStr ''data_types'']"

definition is_str :: "pyval \<Rightarrow> bool" where
  "is_str v = (case v of VStr _ \<Rightarrow> True | _ \<Rightarrow> False)"

text \<open>\<^verbatim>\<open>isinstance(v, (int, float))\<close>: \<^verbatim>\<open>bool\<close> is a subclass of \<^verbatim>\<open>int\<close>.\<close>

definition is_int_or_float :: "pyval \<Rightarrow> bool" where
  "is_int_or_float v = (case v of VInt _ \<Rightarrow> True | VBool _ \<Rightarrow> True | VFloat _ \<Rightarrow> True | _ \<Rightarrow> False)"

definition missing_fields :: "(string \<times> pyval) list \<Rightarrow> string list \<Rightarrow> string list" where
  "missing_fields input_data required =
     map (\<lambda>field. ''Missing required field: '' @ field)
       (filter (\<lambda>field. map_of input_data field = None) required)"

definition validation_errors :: "(string \<times> pyval) list \<Rightarrow> pyval list \<Rightarrow> string list" where
  "validation_errors input_data rules =
     (if VStr ''required_fields'' \<in> set rules
      then missing_fields input_data [''id'', ''type''] else [])
     @ (if VStr ''data_types'' \<in> set rules
        then (case map_of input_data ''id'' of
                Some v \<Rightarrow> if is_str v then [] else [''Field 'id' must be a string'']
              | None \<Rightarrow> [])
        else [])"

definition validation_warnings :: "(string \<times> pyval) list \<Rightarrow> pyval list \<Rightarrow> string list" where
  "validation_warnings input_data rules =
     (if VStr ''data_types'' \<in> set rules
      then (case map_of input_data ''value'' of
              Some v \<Rightarrow> if is_int_or_float v then [] else [''Field 'value' should be numeric'']
            | None \<Rightarrow> [])
      else [])"

definition validate_input ::
  "exec_context \<Rightarrow> (string \<times> pyval) list \<Rightarrow> pyval list option \<Rightarrow> pyval" where
  "validate_input ctx input_data rules_arg =
     (let rules = (case rules_arg of None \<Rightarrow> default_rules | Some r \<Rightarrow> r);
          errors = validation_errors input_data rules;
          warnings = validation_warnings input_data rules;
          is_valid = (length errors = 0)
      in VDict
           [(''valid'', VBool is_valid),
            (''errors'', VList (map VStr errors)),
            (''warnings'', VList (map VStr warnings)),
            (''input_data'', VDict input_data),
            (''rules_applied'', VList rules)])"

subsection \<open>\<^verbatim>\<open>calculate_metrics\<close>\<close>

definition metric_error :: "string \<Rightarrow> string \<Rightarrow> pyval" where
  "metric_error metric_type msg =
     VDict [(''metric_type'', VStr metric_type), (''result'', VNone), (''error'', VStr msg)]"

definition metric_result :: "string \<Rightarrow> pyfloat \<Rightarrow> pyfloat list \<Rightarrow> pyval list \<Rightarrow> pyval" where
  "metric_result metric_type result numbers data_points =
     VDict
       [(''metric_type'', VStr metric_type),
        (''result'', VFloat result),
        (''data_points_count'', VInt (int (length numbers))),
        (''input_data'', VList data_points)]"

text \<open>The body of the \<^verbatim>\<open>try\<close> block; \<open>Inl\<close> is an exception raised inside it.\<close>

definition metrics_body :: "py_runtime \<Rightarrow> pyval list \<Rightarrow> string \<Rightarrow> py_exception + pyval" where
  "metrics_body rt data_points metric_type =
     bind_exc (floats_of rt data_points) (\<lambda>numbers.
       if metric_type = ''average'' then
         bind_exc (float_of_int (int (length numbers))) (\<lambda>n.
           bind_exc (fdiv (py_sum numbers) n) (\<lambda>result.
             Inr (metric_result metric_type result numbers data_points)))
       else if metric_type = ''sum'' then
         Inr (metric_result metric_type (py_sum numbers) numbers data_points)
       else if metric_type = ''min'' then
         bind_exc (py_min numbers) (\<lambda>result.
           Inr (metric_result metric_type result numbers data_points))
       else if metric_type = ''max'' then
         bind_exc (py_max numbers) (\<lambda>result.
           Inr (metric_result metric_type result numbers data_points))
       else Inr (metric_error metric_type (''Unknown metric type: '' @ metric_type)))"

text \<open>\<^verbatim>\<open>except (ValueError, TypeError) as e\<close>: any other exception leaves the handler.\<close>

definition catch_invalid_data :: "string \<Rightarrow> py_exception + pyval \<Rightarrow> py_exception + pyval" where
  "catch_invalid_data metric_type r =
     (case r of
        Inl (ValueError msg) \<Rightarrow> Inr (metric_error metric_type (''Invalid data: '' @ msg))
      | Inl (TypeError msg) \<Rightarrow> Inr (metric_error metric_type (''Invalid data: '' @ msg))
      | Inl e \<Rightarrow> Inl e
      | Inr v \<Rightarrow> Inr v)"

definition calculate_metrics ::
  "py_runtime \<Rightarrow> exec_context \<Rightarrow> pyval list \<Rightarrow> string \<Rightarrow> py_exception + pyval" where
  "calculate_metrics rt ctx data_points metric_type =
     (if data_points = [] then Inr (metric_error metric_type ''No data points provided'')
      else catch_invalid_data metric_type (metrics_body rt data_points metric_type))"

subsection \<open>\<^verbatim>\<open>health_check\<close>\<close>

definition health_check :: "exec_context \<Rightarrow> pyval" where
  "health_check ctx =
     VDict
       [(''status'', VStr ''healthy''),
        (''service'', VStr ''simple-workflow''),
        (''timestamp'', VStr (if ctx_truthy ctx then ctx_str ctx else ''unknown_context'')),
        (''message'', VStr ''Service is running normally'')]"

text \<open>\<^verbatim>\<open>d[key]\<close> on a returned mapping.\<close>

definition field :: "pyval \<Rightarrow> string \<Rightarrow> pyval option" where
  "field v key = (case v of VDict items \<Rightarrow> map_of items key | _ \<Rightarrow> None)"

section \<open>The workflow definitions\<close>

text \<open>
  Modelled from the spec: the types \<^verbatim>\<open>FlowDefinition\<close> and \<^verbatim>\<open>Step\<close> of section 3, which
  \<^verbatim>\<open>functions.py\<close> imports from the \<^verbatim>\<open>agnt5.workflows\<close> package together with the
  constructors \<^verbatim>\<open>task_step\<close>, \<^verbatim>\<open>wait_signal_step\<close> and \<^verbatim>\<open>wait_timer_step\<close>; the package
  is not part of the repository.  A step has a name, the names of the steps it depends
  on, and one of three kinds: a task step (service name, handler name, input data that
  may hold templates), a signal wait (signal name) or a timer wait (timer key, delay in
  milliseconds).  A flow definition is a name and its steps in declaration order.
\<close>

datatype step_kind =
    TaskStep string string pyval
  | WaitSignalStep string
  | WaitTimerStep string int

record step =
  name :: string
  dependencies :: "string list"
  kind :: step_kind

record flow_definition =
  flow_name :: string
  steps :: "step list"

definition task_step :: "string \<Rightarrow> string \<Rightarrow> string \<Rightarrow> string list \<Rightarrow> pyval \<Rightarrow> step" where
  "task_step nm service handler deps inp =
     \<lparr>name = nm, dependencies = deps, kind = TaskStep service handler inp\<rparr>"

definition wait_signal_step :: "string \<Rightarrow> string \<Rightarrow> string list \<Rightarrow> step" where
  "wait_signal_step nm signal deps =
     \<lparr>name = nm, dependencies = deps, kind = WaitSignalStep signal\<rparr>"

definition wait_timer_step :: "string \<Rightarrow> string \<Rightarrow> string list \<Rightarrow> int \<Rightarrow> step" where
  "wait_timer_step nm key deps delay =
     \<lparr>name = nm, dependencies = deps, kind = WaitTimerStep key delay\<rparr>"

text \<open>
  The two definitions of \<^verbatim>\<open>functions.py\<close>; the name is the argument of the
  \<^verbatim>\<open>@workflow\<close> decorator, and a step declared without \<^verbatim>\<open>dependencies\<close> has none.
\<close>

definition build_simple_sequence_flow :: flow_definition where
  "build_simple_sequence_flow =
     \<lparr>flow_name = ''simple_sequence'',
      steps =
        [task_step ''validate'' ''simple-workflow'' ''validate_input'' []
           (VDict [(''input_data'',
              VDict [(''id'', VStr ''{{id}}''), (''type'', VStr ''{{type}}'')])]),
         task_step ''process'' ''simple-workflow'' ''process_task'' [''validate'']
           (VDict [(''task_id'', VStr ''{{task_id}}''),
                   (''task_data'', VDict [(''source'', VStr ''workflow'')])])]\<rparr>"

definition build_metrics_signal_flow :: flow_definition where
  "build_metrics_signal_flow =
     \<lparr>flow_name = ''metrics_with_signal'',
      steps =
        [wait_signal_step ''await_ready'' ''metrics_ready'' [],
         task_step ''calculate'' ''simple-workflow'' ''calculate_metrics'' [''await_ready'']
           (VDict [(''data_points'', VList [VInt 1, VInt 2, VInt 3, VInt 4, VInt 5]),
                   (''metric_type'', VStr ''average'')]),
         wait_timer_step ''cooldown'' ''metrics_cooldown'' [''calculate''] 2000]\<rparr>"

definition step_named :: "flow_definition \<Rightarrow> string \<Rightarrow> step option" where
  "step_named d nm = find (\<lambda>s. name s = nm) (steps d)"

text \<open>The dependency relation of a definition: a step is related to each name it lists.\<close>

definition dep_edges :: "flow_definition \<Rightarrow> (string \<times> string) list" where
  "dep_edges d = concat (map (\<lambda>s. map (Pair (name s)) (dependencies s)) (steps d))"

definition dep_rel :: "flow_definition \<Rightarrow> (string \<times> string) set" where
  "dep_rel d = set (dep_edges d)"

definition names_unique :: "flow_definition \<Rightarrow> bool" where
  "names_unique d = distinct (map name (steps d))"

definition deps_resolve :: "flow_definition \<Rightarrow> bool" where
  "deps_resolve d = list_all (\<lambda>dep. dep \<in> set (map name (steps d))) (map snd (dep_edges d))"

text \<open>
  Modelled from the spec: \<^verbatim>\<open>register\<close> of section 4.1, which is part of the absent
  \<^verbatim>\<open>agnt5\<close> package.  It fails with DuplicateFlowName when a definition of that name is
  registered already, and with InvalidGraph when a dependency names no step of the
  definition or the dependencies form a cycle.  The cycle check is a topological sort:
  each round visits the steps all of whose dependencies are visited; a step left
  unvisited after as many rounds as there are steps lies on or behind a cycle.
\<close>

datatype register_error = DuplicateFlowName | InvalidGraph

fun topo_visit :: "nat \<Rightarrow> step list \<Rightarrow> string list \<Rightarrow> string list" where
  "topo_visit 0 remaining visited = visited"
| "topo_visit (Suc n) remaining visited =
     topo_visit n
       (filter (\<lambda>s. \<not> list_all (\<lambda>dep. dep \<in> set visited) (dependencies s)) remaining)
       (visited @ map name
          (filter (\<lambda>s. list_all (\<lambda>dep. dep \<in> set visited) (dependencies s)) remaining))"

definition has_cycle :: "flow_definition \<Rightarrow> bool" where
  "has_cycle d = (length (topo_visit (length (steps d)) (steps d) []) < length (steps d))"

definition register ::
  "flow_definition list \<Rightarrow> flow_definition \<Rightarrow> register_error + flow_definition list" where
  "register registry d =
     (if flow_name d \<in> set (map flow_name registry) then Inl DuplicateFlowName
      else if deps_resolve d \<and> \<not> has_cycle d then Inr (registry @ [d])
      else Inl InvalidGraph)"

section \<open>The handler registry of the worker\<close>

text \<open>
  Modelled from the spec: the Handler Registry contract of section 6,
  \<^verbatim>\<open>invoke(service_name, handler_name, input, context)\<close>, which returns a mapping or fails
  with a handler error carrying a message.  The registry itself is part of the absent
  \<^verbatim>\<open>agnt5\<close> package.  The input mapping is passed to the Python function as keyword
  arguments after \<^verbatim>\<open>ctx\<close>: a missing required argument or an unexpected keyword makes
  the call itself fail, and an exception that leaves the function is a handler error.
  With arguments of the annotated types the call is the translated handler; with an
  argument of another type it is \<open>untyped_call\<close> of the runtime.
\<close>

type_synonym handler = "exec_context \<Rightarrow> (string \<times> pyval) list \<Rightarrow> string + pyval"

type_synonym handler_registry = "string \<times> string \<Rightarrow> handler option"

definition only_keys :: "string list \<Rightarrow> (string \<times> pyval) list \<Rightarrow> bool" where
  "only_keys allowed kwargs = list_all (\<lambda>k. k \<in> set allowed) (map fst kwargs)"

definition exception_message :: "py_exception \<Rightarrow> string" where
  "exception_message e =
     (case e of ValueError m \<Rightarrow> m | TypeError m \<Rightarrow> m | OverflowError m \<Rightarrow> m
      | ZeroDivisionError m \<Rightarrow> m)"

definition call_process_task :: "py_runtime \<Rightarrow> handler" where
  "call_process_task rt ctx kwargs =
     (if only_keys [''task_id'', ''task_data''] kwargs then
        (case (map_of kwargs ''task_id'', map_of kwargs ''task_data'') of
           (Some (VStr task_id), Some (VDict task_data)) \<Rightarrow>
             Inr (process_task ctx task_id task_data)
         | (Some _, Some _) \<Rightarrow> untyped_call rt ''process_task'' ctx kwargs
         | _ \<Rightarrow> Inl ''process_task: missing required argument'')
      else Inl ''process_task: unexpected keyword argument'')"

definition call_validate_input :: "py_runtime \<Rightarrow> handler" where
  "call_validate_input rt ctx kwargs =
     (if only_keys [''input_data'', ''rules''] kwargs then
        (case (map_of kwargs ''input_data'', map_of kwargs ''rules'') of
           (Some (VDict d), None) \<Rightarrow> Inr (validate_input ctx d None)
         | (Some (VDict d), Some VNone) \<Rightarrow> Inr (validate_input ctx d None)
         | (Some (VDict d), Some (VList rules)) \<Rightarrow> Inr (validate_input ctx d (Some rules))
         | (Some _, _) \<Rightarrow> untyped_call rt ''validate_input'' ctx kwargs
         | _ \<Rightarrow> Inl ''validate_input: missing required argument'')
      else Inl ''validate_input: unexpected keyword argument'')"

definition raised_or_returned :: "py_exception + pyval \<Rightarrow> string + pyval" where
  "raised_or_returned r = (case r of Inl e \<Rightarrow> Inl (exception_message e) | Inr v \<Rightarrow> Inr v)"

definition call_calculate_metrics :: "py_runtime \<Rightarrow> handler" where
  "call_calculate_metrics rt ctx kwargs =
     (if only_keys [''data_points'', ''metric_type''] kwargs then
        (case (map_of kwargs ''data_points'', map_of kwargs ''metric_type'') of
           (Some (VList data_points), None) \<Rightarrow>
             raised_or_returned (calculate_metrics rt ctx data_points ''average'')
         | (Some (VList data_points), Some (VStr metric_type)) \<Rightarrow>
             raised_or_returned (calculate_metrics rt ctx data_points metric_type)
         | (Some _, _) \<Rightarrow> untyped_call rt ''calculate_metrics'' ctx kwargs
         | _ \<Rightarrow> Inl ''calculate_metrics: missing required argument'')
      else Inl ''calculate_metrics: unexpected keyword argument'')"

definition call_health_check :: handler where
  "call_health_check ctx kwargs =
     (if kwargs = [] then Inr (health_check ctx)
      else Inl ''health_check: unexpected keyword argument'')"

text \<open>
  The worker of \<^verbatim>\<open>src/app.py\<close> serves the service \<^verbatim>\<open>simple-workflow\<close>; the
  \<^verbatim>\<open>@function\<close> decorators register the four handlers under their names.
\<close>

definition worker_handlers :: "py_runtime \<Rightarrow> handler_registry" where
  "worker_handlers rt = (\<lambda>(service, handler_name).
     if service = ''simple-workflow'' then
       (if handler_name = ''process_task'' then Some (call_process_task rt)
        else if handler_name = ''validate_input'' then Some (call_validate_input rt)
        else if handler_name = ''calculate_metrics'' then Some (call_calculate_metrics rt)
        else if handler_name = ''health_check'' then Some call_health_check
        else None)
     else None)"

definition invoke ::
  "handler_registry \<Rightarrow> string \<Rightarrow> string \<Rightarrow> pyval \<Rightarrow> exec_context \<Rightarrow> string + pyval" where
  "invoke registry service handler_name inp ctx =
     (case registry (service, handler_name) of
        None \<Rightarrow> Inl ''no such handler''
      | Some h \<Rightarrow> (case inp of VDict kwargs \<Rightarrow> h ctx kwargs | _ \<Rightarrow> Inl ''input is not a mapping''))"

section \<open>The flow execution core\<close>

text \<open>
  Modelled from the spec: the engine of sections 4.2 to 4.6 that runs a flow definition.
  It is part of the absent \<^verbatim>\<open>agnt5\<close> package; the repository only declares handlers and
  definitions for it.
\<close>

subsection \<open>Run state\<close>

text \<open>
  Modelled from the spec: StepState and FlowRun of section 3 and the errors of section 7.
  The field \<open>step_output\<close> is the \<^verbatim>\<open>output\<close> of the spec, \<open>flow\<close> the reference to the
  definition and \<open>run_status\<close> the \<^verbatim>\<open>status\<close> of the run.  A suspend token correlates a
  signal name or a timer key with the owning run.  The field \<open>calls\<close> is not in the
  spec: it lists the invocations of the Handler Registry made for the run (step, service,
  handler, resolved input), so that "the handler was invoked" can be stated.
  Cancellation (section 4.5) has no operation among the interfaces of section 6 and no
  step status in section 3; it is not modelled.
\<close>

datatype step_status = Pending | Ready | Running | Suspended | Succeeded | Failed

datatype step_error = UnresolvedTemplate string | HandlerFailure string | UpstreamFailure string

datatype suspend_token = SignalToken string string | TimerToken string string

record step_state =
  status :: step_status
  step_output :: "pyval option"
  error :: "step_error option"
  suspend_token :: "suspend_token option"

datatype run_status = RunRunning | RunSuspended | RunSucceeded | RunFailed | RunCancelled

record flow_run =
  run_id :: string
  flow :: flow_definition
  trigger_params :: "(string \<times> pyval) list"
  step_states :: "string \<rightharpoonup> step_state"
  run_status :: run_status
  calls :: "(string \<times> string \<times> string \<times> pyval) list"

definition status_of :: "flow_run \<Rightarrow> string \<Rightarrow> step_status option" where
  "status_of run nm = map_option status (step_states run nm)"

definition set_state :: "flow_run \<Rightarrow> string \<Rightarrow> step_state \<Rightarrow> flow_run" where
  "set_state run nm st = run\<lparr>step_states := (step_states run)(nm \<mapsto> st)\<rparr>"

subsection \<open>Template resolver\<close>

text \<open>
  Modelled from the spec: \<^verbatim>\<open>resolve(value, bindings)\<close> of section 4.2.  The bindings are
  the trigger parameters and the outputs of earlier steps.  An identifier with a dot,
  \<^verbatim>\<open>stepName.fieldName\<close>, reaches into the output mapping of that step; any other is
  a trigger parameter.  A string that is or contains \<^verbatim>\<open>{{identifier}}\<close> is replaced
  by the bound value, of whatever type that value is; a string without a placeholder and
  every other scalar pass through; mappings and sequences are walked.  An identifier
  without a binding fails with UnresolvedTemplate.
\<close>

record bindings =
  params :: "(string \<times> pyval) list"
  outputs :: "string \<rightharpoonup> pyval"

fun split_dot :: "string \<Rightarrow> (string \<times> string) option" where
  "split_dot [] = None"
| "split_dot (c # cs) =
     (if c = CHR ''.'' then Some ([], cs)
      else map_option (\<lambda>(a, b). (c # a, b)) (split_dot cs))"

definition lookup_binding :: "bindings \<Rightarrow> string \<Rightarrow> pyval option" where
  "lookup_binding b ident =
     (case split_dot ident of
        None \<Rightarrow> map_of (params b) ident
      | Some (step_nm, field_nm) \<Rightarrow>
          (case outputs b step_nm of Some out \<Rightarrow> field out field_nm | None \<Rightarrow> None))"

fun until_close :: "string \<Rightarrow> string option" where
  "until_close (c # d # cs) =
     (if c = CHR ''}'' \<and> d = CHR ''}'' then Some []
      else map_option ((#) c) (until_close (d # cs)))"
| "until_close _ = None"

fun first_placeholder :: "string \<Rightarrow> string option" where
  "first_placeholder (c # d # cs) =
     (if c = CHR ''{'' \<and> d = CHR ''{'' then until_close cs
      else first_placeholder (d # cs))"
| "first_placeholder _ = None"

fun resolve :: "pyval \<Rightarrow> bindings \<Rightarrow> step_error + pyval"
  and resolve_list :: "pyval list \<Rightarrow> bindings \<Rightarrow> step_error + pyval list"
  and resolve_items ::
    "(string \<times> pyval) list \<Rightarrow> bindings \<Rightarrow> step_error + (string \<times> pyval) list"
where
  "resolve (VStr s) b =
     (case first_placeholder s of
        None \<Rightarrow> Inr (VStr s)
      | Some ident \<Rightarrow>
          (case lookup_binding b ident of
             None \<Rightarrow> Inl (UnresolvedTemplate ident)
           | Some v \<Rightarrow> Inr v))"
| "resolve (VList xs) b = bind_exc (resolve_list xs b) (\<lambda>ys. Inr (VList ys))"
| "resolve (VDict items) b = bind_exc (resolve_items items b) (\<lambda>ys. Inr (VDict ys))"
| "resolve VNone b = Inr VNone"
| "resolve (VBool x) b = Inr (VBool x)"
| "resolve (VInt n) b = Inr (VInt n)"
| "resolve (VFloat f) b = Inr (VFloat f)"
| "resolve_list [] b = Inr []"
| "resolve_list (x # xs) b =
     bind_exc (resolve x b) (\<lambda>y. bind_exc (resolve_list xs b) (\<lambda>ys. Inr (y # ys)))"
| "resolve_items [] b = Inr []"
| "resolve_items (kv # kvs) b =
     bind_exc (resolve (snd kv) b) (\<lambda>y.
       bind_exc (resolve_items kvs b) (\<lambda>ys. Inr ((fst kv, y) # ys)))"

definition bindings_of :: "flow_run \<Rightarrow> bindings" where
  "bindings_of run =
     \<lparr>params = trigger_params run,
      outputs = (\<lambda>nm. case step_states run nm of Some st \<Rightarrow> step_output st | None \<Rightarrow> None)\<rparr>"

subsection \<open>Dependency graph scheduler\<close>

text \<open>
  Modelled from the spec: \<^verbatim>\<open>ready_steps()\<close> of section 4.3 returns, in declaration
  order, every step whose status is Pending and all of whose dependencies are Succeeded.
\<close>

definition deps_succeeded :: "flow_run \<Rightarrow> step \<Rightarrow> bool" where
  "deps_succeeded run s = list_all (\<lambda>dep. status_of run dep = Some Succeeded) (dependencies s)"

definition ready_steps :: "flow_run \<Rightarrow> step list" where
  "ready_steps run =
     filter (\<lambda>s. status_of run (name s) = Some Pending \<and> deps_succeeded run s)
       (steps (flow run))"

text \<open>
  Modelled from the spec: failure propagation of section 4.3.  The transitive dependents
  of the marked names are collected round by round until no step outside the marked
  names depends on one of them; each of them that is still Pending becomes Failed with
  cause \<open>UpstreamFailure\<close> of the step that failed, and is never run.
\<close>

definition newly_marked :: "step list \<Rightarrow> string list \<Rightarrow> step list" where
  "newly_marked ss marked =
     filter (\<lambda>s. name s \<notin> set marked \<and> list_ex (\<lambda>dep. dep \<in> set marked) (dependencies s)) ss"

definition unmarked_count :: "step list \<Rightarrow> string list \<Rightarrow> nat" where
  "unmarked_count ss marked = length (filter (\<lambda>s. name s \<notin> set marked) ss)"

lemma filter_length_less:
  assumes "x \<in> set xs" and "P x" and "\<not> Q x" and "\<And>y. Q y \<Longrightarrow> P y"
  shows "length (filter Q xs) < length (filter P xs)"
  using assms(1)
proof (induction xs)
  case Nil
  then show ?case by simp
next
  case (Cons y ys)
  have le: "length (filter Q ys) \<le> length (filter P ys)"
    by (induction ys) (auto dest: assms(4))
  show ?case
  proof (cases "x = y")
    case True
    then show ?thesis using assms(2,3) le by simp
  next
    case False
    then have "length (filter Q ys) < length (filter P ys)"
      using Cons by simp
    then show ?thesis using assms(4) by auto
  qed
qed

lemma newly_marked_decreases:
  assumes "newly_marked ss marked \<noteq> []"
  shows "unmarked_count ss (marked @ map name (newly_marked ss marked)) < unmarked_count ss marked"
proof -
  from assms obtain s where s: "s \<in> set (newly_marked ss marked)"
    by (cases "newly_marked ss marked") auto
  then have "s \<in> set ss" "name s \<notin> set marked"
    by (simp_all add: newly_marked_def)
  moreover have "\<not> name s \<notin> set (marked @ map name (newly_marked ss marked))"
    using s by simp
  ultimately show ?thesis
    unfolding unmarked_count_def
    by (rule_tac filter_length_less[where x = s]) auto
qed

function dependents_closure :: "step list \<Rightarrow> string list \<Rightarrow> string list" where
  "dependents_closure ss marked =
     (if newly_marked ss marked = [] then marked
      else dependents_closure ss (marked @ map name (newly_marked ss marked)))"
  by pat_completeness auto
termination
  by (relation "measure (\<lambda>(ss, marked). unmarked_count ss marked)")
    (auto simp: newly_marked_decreases)

declare dependents_closure.simps [simp del]

definition failed_state :: "step_error \<Rightarrow> step_state" where
  "failed_state e = \<lparr>status = Failed, step_output = None, error = Some e, suspend_token = None\<rparr>"

definition fail_if_pending :: "string \<Rightarrow> flow_run \<Rightarrow> string \<Rightarrow> flow_run" where
  "fail_if_pending failed_nm run nm =
     (if status_of run nm = Some Pending
      then set_state run nm (failed_state (UpstreamFailure failed_nm)) else run)"

definition propagate_failure :: "flow_run \<Rightarrow> string \<Rightarrow> flow_run" where
  "propagate_failure run failed_nm =
     foldl (fail_if_pending failed_nm) run (dependents_closure (steps (flow run)) [failed_nm])"

definition fail_step :: "flow_run \<Rightarrow> string \<Rightarrow> step_error \<Rightarrow> flow_run" where
  "fail_step run nm e = propagate_failure (set_state run nm (failed_state e)) nm"

subsection \<open>Step executor\<close>

text \<open>
  Modelled from the spec: the per-kind behaviour of section 4.4.  A ready step passes
  through Ready and Running within one execution.  A task step resolves its input and
  invokes the Handler Registry: a return makes it Succeeded with the return value as
  output, a handler error or an unresolved template makes it Failed.  A signal wait and
  a timer wait become Suspended with a token correlating the signal name (the timer key)
  with the run.  The deadline of a timer is kept by the Coordinator and is not part of
  the run state.
\<close>

definition log_call :: "flow_run \<Rightarrow> string \<Rightarrow> string \<Rightarrow> string \<Rightarrow> pyval \<Rightarrow> flow_run" where
  "log_call run nm service handler_name inp =
     run\<lparr>calls := calls run @ [(nm, service, handler_name, inp)]\<rparr>"

definition succeeded_state :: "pyval \<Rightarrow> step_state" where
  "succeeded_state out =
     \<lparr>status = Succeeded, step_output = Some out, error = None, suspend_token = None\<rparr>"

definition suspended_state :: "suspend_token \<Rightarrow> step_state" where
  "suspended_state tok =
     \<lparr>status = Suspended, step_output = None, error = None, suspend_token = Some tok\<rparr>"

definition exec_step :: "handler_registry \<Rightarrow> exec_context \<Rightarrow> flow_run \<Rightarrow> step \<Rightarrow> flow_run" where
  "exec_step registry ctx run s =
     (case kind s of
        TaskStep service handler_name inp \<Rightarrow>
          (case resolve inp (bindings_of run) of
             Inl e \<Rightarrow> fail_step run (name s) e
           | Inr resolved \<Rightarrow>
               (case invoke registry service handler_name resolved ctx of
                  Inl msg \<Rightarrow>
                    fail_step (log_call run (name s) service handler_name resolved) (name s)
                      (HandlerFailure msg)
                | Inr out \<Rightarrow>
                    set_state (log_call run (name s) service handler_name resolved) (name s)
                      (succeeded_state out)))
      | WaitSignalStep signal \<Rightarrow>
          set_state run (name s) (suspended_state (SignalToken signal (run_id run)))
      | WaitTimerStep key delay \<Rightarrow>
          set_state run (name s) (suspended_state (TimerToken key (run_id run))))"

subsection \<open>Run state machine and engine loop\<close>

text \<open>
  Modelled from the spec: the run status of section 4.5 and the loop of section 4.6.  The
  run is Succeeded when every step is Succeeded, Failed when some step is Failed,
  Suspended when no step is ready and some step is Suspended, and Running otherwise.  The
  loop executes the first ready step, re-evaluates readiness and status, and stops when
  the status is terminal or no step is ready.  Ready steps are independent of each other,
  so running them one after the other in declaration order is one of the schedules the
  engine may take.
\<close>

definition settle_status :: "flow_run \<Rightarrow> run_status" where
  "settle_status run =
     (if list_all (\<lambda>s. status_of run (name s) = Some Succeeded) (steps (flow run))
      then RunSucceeded
      else if list_ex (\<lambda>s. status_of run (name s) = Some Failed) (steps (flow run))
      then RunFailed
      else if ready_steps run = []
              \<and> list_ex (\<lambda>s. status_of run (name s) = Some Suspended) (steps (flow run))
      then RunSuspended
      else RunRunning)"

definition refresh_status :: "flow_run \<Rightarrow> flow_run" where
  "refresh_status run = run\<lparr>run_status := settle_status run\<rparr>"

definition is_terminal :: "run_status \<Rightarrow> bool" where
  "is_terminal st = (st = RunSucceeded \<or> st = RunFailed \<or> st = RunCancelled)"

definition pending_count :: "flow_run \<Rightarrow> nat" where
  "pending_count run =
     length (filter (\<lambda>s. status_of run (name s) = Some Pending) (steps (flow run)))"

lemma status_of_set_state:
  "status_of (set_state run nm st) m = (if m = nm then Some (status st) else status_of run m)"
  by (simp add: status_of_def set_state_def)

lemma flow_set_state: "flow (set_state run nm st) = flow run"
  by (simp add: set_state_def)

lemma flow_fail_if_pending: "flow (fail_if_pending f run nm) = flow run"
  by (simp add: fail_if_pending_def flow_set_state)

lemma pending_fail_if_pending:
  "status_of (fail_if_pending f run nm) m = Some Pending \<Longrightarrow> status_of run m = Some Pending"
  by (auto simp: fail_if_pending_def status_of_set_state failed_state_def split: if_splits)

lemma flow_foldl_fail: "flow (foldl (fail_if_pending f) run ns) = flow run"
  by (induction ns arbitrary: run) (simp_all add: flow_fail_if_pending)

lemma pending_foldl_fail:
  "status_of (foldl (fail_if_pending f) run ns) m = Some Pending \<Longrightarrow> status_of run m = Some Pending"
  by (induction ns arbitrary: run) (auto dest: pending_fail_if_pending)

lemma flow_fail_step: "flow (fail_step run nm e) = flow run"
  by (simp add: fail_step_def propagate_failure_def flow_foldl_fail flow_set_state)

lemma pending_fail_step:
  "status_of (fail_step run nm e) m = Some Pending \<Longrightarrow> status_of run m = Some Pending \<and> m \<noteq> nm"
  unfolding fail_step_def propagate_failure_def
  by (drule pending_foldl_fail) (auto simp: status_of_set_state failed_state_def split: if_splits)

lemma status_of_log_call: "status_of (log_call run nm sv h i) m = status_of run m"
  by (simp add: status_of_def log_call_def)

lemma flow_log_call: "flow (log_call run nm sv h i) = flow run"
  by (simp add: log_call_def)

lemma flow_exec_step: "flow (exec_step registry ctx run s) = flow run"
  by (simp add: exec_step_def flow_fail_step flow_set_state flow_log_call
      split: step_kind.splits sum.splits)

lemma pending_exec_step:
  "status_of (exec_step registry ctx run s) m = Some Pending
     \<Longrightarrow> status_of run m = Some Pending \<and> m \<noteq> name s"
  by (auto simp: exec_step_def status_of_set_state status_of_log_call succeeded_state_def
      suspended_state_def split: step_kind.splits sum.splits if_splits
      dest!: pending_fail_step)

lemma status_of_refresh: "status_of (refresh_status run) m = status_of run m"
  by (simp add: refresh_status_def status_of_def)

lemma flow_refresh: "flow (refresh_status run) = flow run"
  by (simp add: refresh_status_def)

lemma ready_step_pending:
  "s \<in> set (ready_steps run) \<Longrightarrow> s \<in> set (steps (flow run)) \<and> status_of run (name s) = Some Pending"
  by (simp add: ready_steps_def)

lemma exec_step_decreases:
  assumes "ready_steps run = s # rest"
  shows "pending_count (refresh_status (exec_step registry ctx run s)) < pending_count run"
proof -
  have s: "s \<in> set (steps (flow run))" "status_of run (name s) = Some Pending"
    using ready_step_pending[of s run] assms by simp_all
  have "\<not> status_of (exec_step registry ctx run s) (name s) = Some Pending"
    using pending_exec_step[of registry ctx run s "name s"] by blast
  with s show ?thesis
    unfolding pending_count_def flow_refresh flow_exec_step status_of_refresh
    by (rule_tac filter_length_less[where x = s]) (auto dest: pending_exec_step)
qed

function drive :: "handler_registry \<Rightarrow> exec_context \<Rightarrow> flow_run \<Rightarrow> flow_run" where
  "drive registry ctx run =
     (if is_terminal (run_status run) then run
      else (case ready_steps run of
              [] \<Rightarrow> run
            | s # rest \<Rightarrow> drive registry ctx (refresh_status (exec_step registry ctx run s))))"
  by pat_completeness auto
termination
  by (relation "measure (\<lambda>(registry, ctx, run). pending_count run)")
    (auto simp: exec_step_decreases)

declare drive.simps [simp del]

subsection \<open>Trigger\<close>

text \<open>
  Modelled from the spec: \<^verbatim>\<open>start_flow\<close> of section 6 with the engine behaviour of
  section 4.6.  A trigger creates the run with every step Pending and enters the loop;
  the identifier of the new run is supplied by the caller.
\<close>

definition pending_state :: step_state where
  "pending_state = \<lparr>status = Pending, step_output = None, error = None, suspend_token = None\<rparr>"

definition new_run :: "flow_definition \<Rightarrow> string \<Rightarrow> (string \<times> pyval) list \<Rightarrow> flow_run" where
  "new_run d rid trigger =
     \<lparr>run_id = rid, flow = d, trigger_params = trigger,
      step_states = map_of (map (\<lambda>s. (name s, pending_state)) (steps d)),
      run_status = RunRunning, calls = []\<rparr>"

definition start_flow ::
  "handler_registry \<Rightarrow> exec_context \<Rightarrow> flow_definition \<Rightarrow> string \<Rightarrow> (string \<times> pyval) list
     \<Rightarrow> flow_run" where
  "start_flow registry ctx d rid trigger = drive registry ctx (refresh_status (new_run d rid trigger))"

section \<open>Properties of the handlers\<close>

subsection \<open>Evaluating the binary64 model\<close>

lemma bit_length_0: "bit_length 0 = 0"
  by (subst bit_length.simps) simp

lemma bit_length_1: "bit_length 1 = 1"
  by (subst bit_length.simps) (simp add: bit_length_0)

lemma bit_length_Bit0: "bit_length (numeral (Num.Bit0 k)) = Suc (bit_length (numeral k))"
  by (subst bit_length.simps) simp

lemma bit_length_Bit1: "bit_length (numeral (Num.Bit1 k)) = Suc (bit_length (numeral k))"
  by (subst bit_length.simps) simp

lemmas bit_length_numeral = bit_length_0 bit_length_1 bit_length_Bit0 bit_length_Bit1

lemmas round_defs = float_of_int_def round_double_def round_magnitude_def ulp_of_def
  floor_log2_def pow2_def round_half_even_def

lemma bit_length_pow2: "bit_length (2 ^ n) = Suc n"
proof (induction n)
  case 0
  show ?case by (simp add: bit_length_1)
next
  case (Suc n)
  show ?case by (subst bit_length.simps) (simp add: Suc)
qed

lemma round_half_even_int: "round_half_even (of_int k) = k"
  by (simp add: round_half_even_def)

text \<open>Every power of two from \<open>2\<^sup>1\<^sup>0\<^sup>2\<^sup>4\<close> on is beyond the doubles.\<close>

lemma float_of_int_pow2_overflow:
  assumes "1024 \<le> n"
  shows "float_of_int (2 ^ n) = Inl (OverflowError ''int too large to convert to float'')"
proof -
  have fl: "floor_log2 (2 ^ n) = int n"
    using bit_length_pow2[of n] by (simp add: floor_log2_def)
  have n52: "nat (int n - 52) = n - 52" by simp
  have u: "ulp_of (2 ^ n) = 2 ^ (n - 52)"
    using assms by (simp add: ulp_of_def fl pow2_def n52)
  have "n = 52 + (n - 52)" using assms by simp
  then have split: "(2::rat) ^ n = 2 ^ 52 * 2 ^ (n - 52)"
    by (metis power_add)
  then have q: "(2::rat) ^ n / 2 ^ (n - 52) = of_int (2 ^ 52)"
    by simp
  have rm: "round_magnitude (2 ^ n) = 2 ^ n"
    unfolding round_magnitude_def u q round_half_even_int
    using split by simp
  have p: "pow2 1024 \<le> 2 ^ n"
  proof -
    have "(2::rat) ^ 1024 \<le> 2 ^ n"
      by (rule power_increasing) (use assms in simp_all)
    then show ?thesis by (simp add: pow2_def)
  qed
  show ?thesis
    using p by (simp add: float_of_int_def round_double_def rm)
qed

lemma floats_of_one_to_five:
  "floats_of rt [VInt 1, VInt 2, VInt 3, VInt 4, VInt 5] =
     Inr [FFinite 1, FFinite 2, FFinite 3, FFinite 4, FFinite 5]"
  by (simp add: bind_exc_def round_defs bit_length_numeral)

lemma py_sum_one_to_five:
  "py_sum [FFinite 1, FFinite 2, FFinite 3, FFinite 4, FFinite 5] = FFinite 15"
  by (simp add: py_sum_def round_defs bit_length_numeral)

lemma float_of_int_five: "float_of_int 5 = Inr (FFinite 5)"
  by (simp add: round_defs bit_length_numeral)

lemma fdiv_fifteen_by_five: "fdiv (FFinite 15) (FFinite 5) = Inr (FFinite 3)"
  by (simp add: fdiv_def round_defs bit_length_numeral)

subsection \<open>\<^verbatim>\<open>validate_input\<close>\<close>

lemma validation_errors_ignore_value:
  "validation_errors ((''value'', v) # input_data) rules = validation_errors input_data rules"
  by (simp add: validation_errors_def missing_fields_def)

text \<open>
  C10.  For every \<open>input_data\<close> mapping and every \<open>rules\<close> argument, the mapping returned
  by \<open>validate_input\<close> has \<open>"valid"\<close> true exactly when its \<open>"errors"\<close> list is empty.
  Warnings do not enter validity: setting the \<open>"value"\<close> field to any value leaves
  \<open>"valid"\<close> and \<open>"errors"\<close> as they were, and an input whose \<open>"value"\<close> is not numeric is
  valid with the warning recorded.  With \<open>rules = None\<close> the handler behaves as with
  \<open>["required_fields", "data_types"]\<close> and reports these as \<open>"rules_applied"\<close>.
\<close>

theorem validate_input_valid_iff_no_errors:
  "(\<exists>errors. field (validate_input ctx input_data rules) ''errors'' = Some (VList errors)
      \<and> field (validate_input ctx input_data rules) ''valid'' = Some (VBool (errors = [])))
   \<and> field (validate_input ctx ((''value'', v) # input_data) rules) ''valid''
       = field (validate_input ctx input_data rules) ''valid''
   \<and> field (validate_input ctx ((''value'', v) # input_data) rules) ''errors''
       = field (validate_input ctx input_data rules) ''errors''
   \<and> field (validate_input ctx
         [(''id'', VStr ''x1''), (''type'', VStr ''order''), (''value'', VStr ''abc'')] None) ''valid''
       = Some (VBool True)
   \<and> field (validate_input ctx
         [(''id'', VStr ''x1''), (''type'', VStr ''order''), (''value'', VStr ''abc'')] None) ''warnings''
       = Some (VList [VStr ''Field 'value' should be numeric''])
   \<and> validate_input ctx input_data None
       = validate_input ctx input_data (Some [VStr ''required_fields'', VStr ''data_types''])
   \<and> field (validate_input ctx input_data None) ''rules_applied''
       = Some (VList [VStr ''required_fields'', VStr ''data_types''])"
  by (simp add: validate_input_def field_def Let_def validation_errors_ignore_value
      default_rules_def validation_errors_def validation_warnings_def missing_fields_def
      is_str_def is_int_or_float_def)

subsection \<open>\<^verbatim>\<open>calculate_metrics\<close>\<close>

text \<open>
  What the handler does on every input: a returned mapping carries the \<open>metric_type\<close>
  argument, ValueError and TypeError are turned into an error mapping, and the only
  exception that can leave the handler is OverflowError.  (The divisor of the average is
  the length of a non-empty list, whose double is never zero.)
\<close>

lemma bit_length_lower: "1 \<le> n \<Longrightarrow> 2 ^ (bit_length n - 1) \<le> n"
proof (induction n rule: bit_length.induct)
  case (1 n)
  show ?case
  proof (cases "n div 2 \<le> 0")
    case True
    with "1.prems" have "n = 1" by linarith
    then show ?thesis by (simp add: bit_length_1)
  next
    case False
    then have h: "1 \<le> n div 2" by simp
    have bl: "bit_length n = Suc (bit_length (n div 2))"
      using "1.prems" by (subst bit_length.simps) simp
    have pos: "0 < bit_length (n div 2)"
      using h by (subst bit_length.simps) simp
    have "2 ^ (bit_length (n div 2) - 1) \<le> n div 2"
      using "1.IH" "1.prems" h by simp
    then have "2 * 2 ^ (bit_length (n div 2) - 1) \<le> 2 * (n div 2)" by simp
    moreover have "(2::int) * 2 ^ (bit_length (n div 2) - 1) = 2 ^ bit_length (n div 2)"
      using pos by (cases "bit_length (n div 2)") simp_all
    moreover have "2 * (n div 2) \<le> n" by simp
    ultimately show ?thesis by (simp add: bl)
  qed
qed

lemma pow2_pos: "0 < pow2 k"
  by (simp add: pow2_def)

lemma round_half_even_ge_floor: "\<lfloor>x\<rfloor> \<le> round_half_even x"
  by (simp add: round_half_even_def)

lemma ulp_le: assumes "1 \<le> a" shows "ulp_of a \<le> a"
proof -
  let ?e = "floor_log2 a"
  have fl1: "1 \<le> \<lfloor>a\<rfloor>" using assms by linarith
  have e: "?e = int (bit_length \<lfloor>a\<rfloor>) - 1" using assms by (simp add: floor_log2_def)
  have blpos: "0 < bit_length \<lfloor>a\<rfloor>" using fl1 by (subst bit_length.simps) simp
  then have e0: "0 \<le> ?e" using e by simp
  have low: "(2::int) ^ (bit_length \<lfloor>a\<rfloor> - 1) \<le> \<lfloor>a\<rfloor>" using bit_length_lower[OF fl1] .
  have u: "ulp_of a = pow2 (?e - 52)" using e0 by (simp add: ulp_of_def max_def)
  show ?thesis
  proof (cases "0 \<le> ?e - 52")
    case True
    have "nat (?e - 52) \<le> bit_length \<lfloor>a\<rfloor> - 1" using e by simp
    then have "(2::int) ^ nat (?e - 52) \<le> 2 ^ (bit_length \<lfloor>a\<rfloor> - 1)"
      by (intro power_increasing) simp_all
    with low have "(2::int) ^ nat (?e - 52) \<le> \<lfloor>a\<rfloor>" by linarith
    then have "of_int ((2::int) ^ nat (?e - 52)) \<le> a" by (simp add: le_floor_iff)
    then show ?thesis using True by (simp add: u pow2_def)
  next
    case False
    have "1 / (2::rat) ^ k \<le> 1" for k :: nat
      by (simp add: divide_le_eq_1)
    then have "pow2 (?e - 52) \<le> 1"
      using False by (simp add: pow2_def)
    then show ?thesis using assms u by linarith
  qed
qed

lemma round_magnitude_pos: assumes "1 \<le> a" shows "0 < round_magnitude a"
proof -
  have up: "0 < ulp_of a" by (simp add: ulp_of_def pow2_pos)
  have "1 \<le> a / ulp_of a" using ulp_le[OF assms] up by (simp add: le_divide_eq)
  then have "1 \<le> \<lfloor>a / ulp_of a\<rfloor>" by linarith
  then have "1 \<le> round_half_even (a / ulp_of a)"
    using round_half_even_ge_floor[of "a / ulp_of a"] by linarith
  then have "0 < (of_int (round_half_even (a / ulp_of a)) :: rat)" by simp
  then show ?thesis using up by (simp add: round_magnitude_def)
qed

lemma float_of_int_pos_nonzero: "0 < n \<Longrightarrow> float_of_int n \<noteq> Inr (FFinite 0)"
  using round_magnitude_pos[of "of_int n"]
  by (auto simp: float_of_int_def round_double_def split: if_splits pyfloat.splits)

lemma float_of_int_raises: "float_of_int n = Inl e \<Longrightarrow> \<exists>m. e = OverflowError m"
  by (auto simp: float_of_int_def split: pyfloat.splits)

lemma py_float_raises:
  "py_float rt x = Inl e \<Longrightarrow> (\<exists>m. e = OverflowError m) \<or> (\<exists>m. e = ValueError m) \<or> (\<exists>m. e = TypeError m)"
  by (cases x) (auto dest: float_of_int_raises split: sum.splits)

lemma floats_of_raises:
  "floats_of rt xs = Inl e \<Longrightarrow> (\<exists>m. e = OverflowError m) \<or> (\<exists>m. e = ValueError m) \<or> (\<exists>m. e = TypeError m)"
proof (induction xs)
  case Nil then show ?case by simp
next
  case (Cons x xs)
  then show ?case
    by (auto simp: bind_exc_def split: sum.splits dest: py_float_raises)
qed

lemma floats_of_length: "floats_of rt xs = Inr fs \<Longrightarrow> length fs = length xs"
  by (induction xs arbitrary: fs) (auto simp: bind_exc_def split: sum.splits)

lemma metrics_body_raises:
  assumes "data_points \<noteq> []" "metrics_body rt data_points metric_type = Inl e"
  shows "(\<exists>m. e = OverflowError m) \<or> (\<exists>m. e = ValueError m) \<or> (\<exists>m. e = TypeError m)"
proof (cases "floats_of rt data_points")
  case (Inl e')
  then show ?thesis using assms(2) floats_of_raises[OF Inl] by (simp add: metrics_body_def bind_exc_def)
next
  case (Inr numbers)
  then have len: "0 < int (length numbers)" using floats_of_length[OF Inr] assms(1) by simp
  have nz: "float_of_int (int (length numbers)) \<noteq> Inr (FFinite 0)"
    using float_of_int_pos_nonzero[OF len] .
  show ?thesis
    using assms(2) Inr nz
    by (auto simp: metrics_body_def bind_exc_def fdiv_def py_min_def py_max_def
        split: sum.splits if_splits list.splits dest: float_of_int_raises)
qed

lemma calculate_metrics_escapes_only_overflow:
  "calculate_metrics rt ctx data_points metric_type = Inl e \<Longrightarrow> \<exists>m. e = OverflowError m"
  using metrics_body_raises[of data_points rt metric_type]
  by (auto simp: calculate_metrics_def catch_invalid_data_def split: if_splits sum.splits py_exception.splits)

lemma calculate_metrics_echoes_metric_type:
  "calculate_metrics rt ctx data_points metric_type = Inr r \<Longrightarrow> field r ''metric_type'' = Some (VStr metric_type)"
  by (auto simp: calculate_metrics_def catch_invalid_data_def metrics_body_def bind_exc_def
      metric_error_def metric_result_def field_def split: if_splits sum.splits py_exception.splits)

text \<open>
  C9.  The claim that \<open>calculate_metrics\<close> never raises fails on the code: an integer
  element too large for a double makes \<^verbatim>\<open>float(x)\<close> raise OverflowError, which the
  \<^verbatim>\<open>except (ValueError, TypeError)\<close> clause does not catch.  At
  \<open>data_points = [2 ** 1024]\<close> the exception leaves the handler, whatever the metric type.
\<close>

theorem calculate_metrics_overflow_escapes:
  "calculate_metrics rt ctx [VInt (2 ^ 1024)] metric_type
     = Inl (OverflowError ''int too large to convert to float'')"
proof -
  have "floats_of rt [VInt (2 ^ 1024)]
      = Inl (OverflowError ''int too large to convert to float'')"
    using float_of_int_pow2_overflow[of 1024] by (simp add: bind_exc_def)
  then have "metrics_body rt [VInt (2 ^ 1024)] metric_type
      = Inl (OverflowError ''int too large to convert to float'')"
    by (simp add: metrics_body_def bind_exc_def)
  then show ?thesis
    by (simp add: calculate_metrics_def catch_invalid_data_def)
qed

text \<open>The handler on the arguments declared for the \<open>calculate\<close> step.\<close>

lemma calculate_metrics_one_to_five:
  "calculate_metrics rt ctx [VInt 1, VInt 2, VInt 3, VInt 4, VInt 5] ''average''
     = Inr (VDict
         [(''metric_type'', VStr ''average''),
          (''result'', VFloat (FFinite 3)),
          (''data_points_count'', VInt 5),
          (''input_data'', VList [VInt 1, VInt 2, VInt 3, VInt 4, VInt 5])])"
proof -
  have "metrics_body rt [VInt 1, VInt 2, VInt 3, VInt 4, VInt 5] ''average''
     = Inr (metric_result ''average'' (FFinite 3)
         [FFinite 1, FFinite 2, FFinite 3, FFinite 4, FFinite 5]
         [VInt 1, VInt 2, VInt 3, VInt 4, VInt 5])"
    unfolding metrics_body_def floats_of_one_to_five
    by (simp add: bind_exc_def py_sum_one_to_five float_of_int_five fdiv_fifteen_by_five)
  then show ?thesis
    by (simp add: calculate_metrics_def catch_invalid_data_def metric_result_def)
qed

section \<open>Properties of the workflow definitions\<close>

lemmas flow_defs = build_simple_sequence_flow_def build_metrics_signal_flow_def task_step_def
  wait_signal_step_def wait_timer_step_def

lemma dep_edges_simple_sequence:
  "dep_edges build_simple_sequence_flow = [(''process'', ''validate'')]"
  by (simp add: dep_edges_def flow_defs)

lemma dep_edges_metrics_signal:
  "dep_edges build_metrics_signal_flow
     = [(''calculate'', ''await_ready''), (''cooldown'', ''calculate'')]"
  by (simp add: dep_edges_def flow_defs)

lemma acyclic_empty_rel: "acyclic {}"
  by (simp add: acyclic_def)

lemma acyclic_simple_sequence: "acyclic (dep_rel build_simple_sequence_flow)"
  by (simp add: dep_rel_def dep_edges_simple_sequence acyclic_insert acyclic_empty_rel)

lemma acyclic_metrics_signal: "acyclic (dep_rel build_metrics_signal_flow)"
proof -
  have "(''await_ready'', ''calculate'') \<notin> {(''cooldown'', ''calculate'')}\<^sup>*"
    by (auto elim: converse_rtranclE)
  then show ?thesis
    by (simp add: dep_rel_def dep_edges_metrics_signal acyclic_insert acyclic_empty_rel)
qed

lemma deps_resolve_simple_sequence: "deps_resolve build_simple_sequence_flow"
  by (simp add: deps_resolve_def dep_edges_simple_sequence) (simp add: flow_defs)

lemma deps_resolve_metrics_signal: "deps_resolve build_metrics_signal_flow"
  by (simp add: deps_resolve_def dep_edges_metrics_signal) (simp add: flow_defs)

lemma no_cycle_simple_sequence: "\<not> has_cycle build_simple_sequence_flow"
  by (simp add: has_cycle_def flow_defs numeral_2_eq_2)

lemma no_cycle_metrics_signal: "\<not> has_cycle build_metrics_signal_flow"
  by (simp add: has_cycle_def flow_defs numeral_3_eq_3)

text \<open>
  C6.  Both definitions built by the repository satisfy the definition invariant: the
  step names are \<open>validate, process\<close> and \<open>await_ready, calculate, cooldown\<close>, unique in
  each; every dependency names a step of the same definition; the dependency relation
  is acyclic.  Registering the two at start-up, one after the other, is accepted.
\<close>

theorem built_flows_satisfy_invariant:
  "map name (steps build_simple_sequence_flow) = [''validate'', ''process'']
   \<and> map name (steps build_metrics_signal_flow) = [''await_ready'', ''calculate'', ''cooldown'']
   \<and> names_unique build_simple_sequence_flow \<and> names_unique build_metrics_signal_flow
   \<and> deps_resolve build_simple_sequence_flow \<and> deps_resolve build_metrics_signal_flow
   \<and> acyclic (dep_rel build_simple_sequence_flow) \<and> acyclic (dep_rel build_metrics_signal_flow)
   \<and> register [] build_simple_sequence_flow = Inr [build_simple_sequence_flow]
   \<and> register [build_simple_sequence_flow] build_metrics_signal_flow
       = Inr [build_simple_sequence_flow, build_metrics_signal_flow]"
proof -
  have names: "map name (steps build_simple_sequence_flow) = [''validate'', ''process'']"
    "map name (steps build_metrics_signal_flow) = [''await_ready'', ''calculate'', ''cooldown'']"
    by (simp_all add: flow_defs)
  have uniq: "names_unique build_simple_sequence_flow" "names_unique build_metrics_signal_flow"
    by (simp_all add: names_unique_def names)
  have reg1: "register [] build_simple_sequence_flow = Inr [build_simple_sequence_flow]"
    by (simp add: register_def deps_resolve_simple_sequence no_cycle_simple_sequence)
  have "flow_name build_metrics_signal_flow \<noteq> flow_name build_simple_sequence_flow"
    by (simp add: flow_defs)
  then have reg2: "register [build_simple_sequence_flow] build_metrics_signal_flow
       = Inr [build_simple_sequence_flow, build_metrics_signal_flow]"
    by (simp add: register_def deps_resolve_metrics_signal no_cycle_metrics_signal)
  show ?thesis
    using names uniq reg1 reg2 deps_resolve_simple_sequence deps_resolve_metrics_signal
      acyclic_simple_sequence acyclic_metrics_signal
    by simp
qed


section \<open>The \<open>simple_sequence\<close> scenario\<close>

text \<open>
  C1.  Triggering \<open>simple_sequence\<close> with \<open>{id: "x1", type: "order", task_id: "t1"}\<close>
  makes two calls to the handler registry, in this order: \<open>validate_input\<close> with
  \<open>input_data = {"id": "x1", "type": "order"}\<close> and no \<open>rules\<close> argument, so the default
  rules apply, and \<open>process_task\<close> with \<open>task_id = "t1"\<close>.  The first call returns a mapping
  with \<open>"valid"\<close> true and an empty \<open>"errors"\<close> list.  Both steps end Succeeded with the
  handler's return value recorded as output, and the run ends Succeeded.
\<close>

theorem simple_sequence_run_succeeds:
  "calls (start_flow (worker_handlers rt) ctx build_simple_sequence_flow rid
      [(''id'', VStr ''x1''), (''type'', VStr ''order''), (''task_id'', VStr ''t1'')])
     = [(''validate'', ''simple-workflow'', ''validate_input'',
           VDict [(''input_data'', VDict [(''id'', VStr ''x1''), (''type'', VStr ''order'')])]),
        (''process'', ''simple-workflow'', ''process_task'',
           VDict [(''task_id'', VStr ''t1''),
                  (''task_data'', VDict [(''source'', VStr ''workflow'')])])]
   \<and> invoke (worker_handlers rt) ''simple-workflow'' ''validate_input''
       (VDict [(''input_data'', VDict [(''id'', VStr ''x1''), (''type'', VStr ''order'')])]) ctx
     = Inr (validate_input ctx [(''id'', VStr ''x1''), (''type'', VStr ''order'')] None)
   \<and> field (validate_input ctx [(''id'', VStr ''x1''), (''type'', VStr ''order'')] None) ''valid''
     = Some (VBool True)
   \<and> field (validate_input ctx [(''id'', VStr ''x1''), (''type'', VStr ''order'')] None) ''errors''
     = Some (VList [])
   \<and> step_states (start_flow (worker_handlers rt) ctx build_simple_sequence_flow rid
        [(''id'', VStr ''x1''), (''type'', VStr ''order''), (''task_id'', VStr ''t1'')]) ''validate''
     = Some (succeeded_state
         (validate_input ctx [(''id'', VStr ''x1''), (''type'', VStr ''order'')] None))
   \<and> step_states (start_flow (worker_handlers rt) ctx build_simple_sequence_flow rid
        [(''id'', VStr ''x1''), (''type'', VStr ''order''), (''task_id'', VStr ''t1'')]) ''process''
     = Some (succeeded_state (process_task ctx ''t1'' [(''source'', VStr ''workflow'')]))
   \<and> run_status (start_flow (worker_handlers rt) ctx build_simple_sequence_flow rid
        [(''id'', VStr ''x1''), (''type'', VStr ''order''), (''task_id'', VStr ''t1'')])
     = RunSucceeded"
proof -
  have run: "start_flow (worker_handlers rt) ctx build_simple_sequence_flow rid
      [(''id'', VStr ''x1''), (''type'', VStr ''order''), (''task_id'', VStr ''t1'')]
   = \<lparr>run_id = rid, flow = build_simple_sequence_flow,
      trigger_params =
        [(''id'', VStr ''x1''), (''type'', VStr ''order''), (''task_id'', VStr ''t1'')],
      step_states = (map_of [(''validate'', pending_state), (''process'', pending_state)])
        (''validate'' \<mapsto> succeeded_state
           (validate_input ctx [(''id'', VStr ''x1''), (''type'', VStr ''order'')] None),
         ''process'' \<mapsto> succeeded_state
           (process_task ctx ''t1'' [(''source'', VStr ''workflow'')])),
      run_status = RunSucceeded,
      calls =
        [(''validate'', ''simple-workflow'', ''validate_input'',
            VDict [(''input_data'', VDict [(''id'', VStr ''x1''), (''type'', VStr ''order'')])]),
         (''process'', ''simple-workflow'', ''process_task'',
            VDict [(''task_id'', VStr ''t1''),
                   (''task_data'', VDict [(''source'', VStr ''workflow'')])])]\<rparr>"
    by (simp add: start_flow_def new_run_def refresh_status_def settle_status_def
        ready_steps_def deps_succeeded_def status_of_def set_state_def exec_step_def
        log_call_def is_terminal_def bindings_of_def lookup_binding_def invoke_def
        worker_handlers_def bind_exc_def flow_defs drive.simps call_validate_input_def
        call_process_task_def only_keys_def pending_state_def succeeded_state_def)
  have call: "invoke (worker_handlers rt) ''simple-workflow'' ''validate_input''
       (VDict [(''input_data'', VDict [(''id'', VStr ''x1''), (''type'', VStr ''order'')])]) ctx
     = Inr (validate_input ctx [(''id'', VStr ''x1''), (''type'', VStr ''order'')] None)"
    by (simp add: invoke_def worker_handlers_def call_validate_input_def only_keys_def)
  have valid: "field (validate_input ctx [(''id'', VStr ''x1''), (''type'', VStr ''order'')] None)
       ''valid'' = Some (VBool True)"
    "field (validate_input ctx [(''id'', VStr ''x1''), (''type'', VStr ''order'')] None)
       ''errors'' = Some (VList [])"
    by (simp_all add: validate_input_def field_def Let_def default_rules_def
        validation_errors_def missing_fields_def is_str_def)
  show ?thesis
    unfolding run using call valid by simp
qed

theorem simple_sequence_run_witness:
  "run_status (start_flow
      (worker_handlers \<lparr>str_to_float = (\<lambda>s. Inl ''could not convert string to float''),
                        float_type_error = (\<lambda>v. ''float() argument must be a number''),
                        untyped_call = (\<lambda>h c kwargs. Inl ''unsupported argument type'')\<rparr>)
      \<lparr>ctx_truthy = True, ctx_str = ''ctx''\<rparr> build_simple_sequence_flow ''run-1''
      [(''id'', VStr ''x1''), (''type'', VStr ''order''), (''task_id'', VStr ''t1'')])
     = RunSucceeded"
  using simple_sequence_run_succeeds
    [of "\<lparr>str_to_float = (\<lambda>s. Inl ''could not convert string to float''),
          float_type_error = (\<lambda>v. ''float() argument must be a number''),
          untyped_call = (\<lambda>h c kwargs. Inl ''unsupported argument type'')\<rparr>"
        "\<lparr>ctx_truthy = True, ctx_str = ''ctx''\<rparr>" "''run-1''"]
  by simp

section \<open>The \<open>calculate\<close> step of \<open>metrics_with_signal\<close>\<close>

lemma invoke_calculate_metrics_one_to_five:
  "invoke (worker_handlers rt) ''simple-workflow'' ''calculate_metrics''
       (VDict [(''data_points'', VList [VInt 1, VInt 2, VInt 3, VInt 4, VInt 5]),
               (''metric_type'', VStr ''average'')]) ctx
     = Inr (VDict
         [(''metric_type'', VStr ''average''),
          (''result'', VFloat (FFinite 3)),
          (''data_points_count'', VInt 5),
          (''input_data'', VList [VInt 1, VInt 2, VInt 3, VInt 4, VInt 5])])"
  by (simp add: invoke_def worker_handlers_def call_calculate_metrics_def only_keys_def
      calculate_metrics_one_to_five raised_or_returned_def)

lemma exec_calculate_step:
  "exec_step (worker_handlers rt) ctx run
        (task_step ''calculate'' ''simple-workflow'' ''calculate_metrics'' [''await_ready'']
           (VDict [(''data_points'', VList [VInt 1, VInt 2, VInt 3, VInt 4, VInt 5]),
                   (''metric_type'', VStr ''average'')]))
   = set_state
       (log_call run ''calculate'' ''simple-workflow'' ''calculate_metrics''
          (VDict [(''data_points'', VList [VInt 1, VInt 2, VInt 3, VInt 4, VInt 5]),
                  (''metric_type'', VStr ''average'')]))
       ''calculate''
       (succeeded_state (VDict
         [(''metric_type'', VStr ''average''),
          (''result'', VFloat (FFinite 3)),
          (''data_points_count'', VInt 5),
          (''input_data'', VList [VInt 1, VInt 2, VInt 3, VInt 4, VInt 5])]))"
  unfolding exec_step_def
  by (simp add: task_step_def bind_exc_def invoke_calculate_metrics_one_to_five)

text \<open>
  The run once \<open>await_ready\<close> has succeeded with some payload: the loop executes
  \<open>calculate\<close> and then suspends at \<open>cooldown\<close>.
\<close>

lemma drive_after_await_ready:
  "drive (worker_handlers rt) ctx
      (refresh_status (set_state (new_run build_metrics_signal_flow rid trigger) ''await_ready''
          (succeeded_state payload)))
   = \<lparr>run_id = rid, flow = build_metrics_signal_flow, trigger_params = trigger,
      step_states = (map_of [(''await_ready'', pending_state), (''calculate'', pending_state),
           (''cooldown'', pending_state)])
        (''await_ready'' \<mapsto> succeeded_state payload,
         ''calculate'' \<mapsto> succeeded_state (VDict
           [(''metric_type'', VStr ''average''),
            (''result'', VFloat (FFinite 3)),
            (''data_points_count'', VInt 5),
            (''input_data'', VList [VInt 1, VInt 2, VInt 3, VInt 4, VInt 5])]),
         ''cooldown'' \<mapsto> suspended_state (TimerToken ''metrics_cooldown'' rid)),
      run_status = RunSuspended,
      calls = [(''calculate'', ''simple-workflow'', ''calculate_metrics'',
          VDict [(''data_points'', VList [VInt 1, VInt 2, VInt 3, VInt 4, VInt 5]),
                 (''metric_type'', VStr ''average'')])]\<rparr>"
  by (simp add: new_run_def refresh_status_def settle_status_def
        ready_steps_def deps_succeeded_def status_of_def set_state_def exec_step_def
        log_call_def is_terminal_def bindings_of_def bind_exc_def
        invoke_calculate_metrics_one_to_five
        flow_defs drive.simps pending_state_def succeeded_state_def suspended_state_def)

text \<open>
  C2.  The \<open>calculate\<close> step of \<open>metrics_with_signal\<close> is declared as a task step for the
  handler \<open>calculate_metrics\<close> of the service \<open>simple-workflow\<close> with the input
  \<open>data_points = [1, 2, 3, 4, 5]\<close>, \<open>metric_type = "average"\<close>.  The input holds no template,
  so it resolves to itself under every binding.  Invoking the worker's registry on it
  calls \<open>calculate_metrics\<close> with these two arguments, and the handler returns the mapping
  with \<open>"result"\<close> 3.0 and \<open>"data_points_count"\<close> 5.  Executing the step in any run appends
  exactly this call to the calls of the run and records the mapping as the step's output;
  in a run of the workflow whose \<open>await_ready\<close> step has succeeded, the engine loop makes
  this call and no other.
\<close>

theorem calculate_step_average_of_one_to_five:
  "step_named build_metrics_signal_flow ''calculate''
     = Some (task_step ''calculate'' ''simple-workflow'' ''calculate_metrics'' [''await_ready'']
         (VDict [(''data_points'', VList [VInt 1, VInt 2, VInt 3, VInt 4, VInt 5]),
                 (''metric_type'', VStr ''average'')]))
   \<and> resolve (VDict [(''data_points'', VList [VInt 1, VInt 2, VInt 3, VInt 4, VInt 5]),
                     (''metric_type'', VStr ''average'')]) b
     = Inr (VDict [(''data_points'', VList [VInt 1, VInt 2, VInt 3, VInt 4, VInt 5]),
                   (''metric_type'', VStr ''average'')])
   \<and> invoke (worker_handlers rt) ''simple-workflow'' ''calculate_metrics''
       (VDict [(''data_points'', VList [VInt 1, VInt 2, VInt 3, VInt 4, VInt 5]),
               (''metric_type'', VStr ''average'')]) ctx
     = raised_or_returned
         (calculate_metrics rt ctx [VInt 1, VInt 2, VInt 3, VInt 4, VInt 5] ''average'')
   \<and> calculate_metrics rt ctx [VInt 1, VInt 2, VInt 3, VInt 4, VInt 5] ''average''
     = Inr (VDict
         [(''metric_type'', VStr ''average''),
          (''result'', VFloat (FFinite 3)),
          (''data_points_count'', VInt 5),
          (''input_data'', VList [VInt 1, VInt 2, VInt 3, VInt 4, VInt 5])])
   \<and> calls (exec_step (worker_handlers rt) ctx run
        (task_step ''calculate'' ''simple-workflow'' ''calculate_metrics'' [''await_ready'']
           (VDict [(''data_points'', VList [VInt 1, VInt 2, VInt 3, VInt 4, VInt 5]),
                   (''metric_type'', VStr ''average'')])))
     = calls run @ [(''calculate'', ''simple-workflow'', ''calculate_metrics'',
          VDict [(''data_points'', VList [VInt 1, VInt 2, VInt 3, VInt 4, VInt 5]),
                 (''metric_type'', VStr ''average'')])]
   \<and> step_states (exec_step (worker_handlers rt) ctx run
        (task_step ''calculate'' ''simple-workflow'' ''calculate_metrics'' [''await_ready'']
           (VDict [(''data_points'', VList [VInt 1, VInt 2, VInt 3, VInt 4, VInt 5]),
                   (''metric_type'', VStr ''average'')]))) ''calculate''
     = Some (succeeded_state (VDict
         [(''metric_type'', VStr ''average''),
          (''result'', VFloat (FFinite 3)),
          (''data_points_count'', VInt 5),
          (''input_data'', VList [VInt 1, VInt 2, VInt 3, VInt 4, VInt 5])]))
   \<and> calls (drive (worker_handlers rt) ctx
        (refresh_status (set_state (new_run build_metrics_signal_flow rid trigger)
           ''await_ready'' (succeeded_state payload))))
     = [(''calculate'', ''simple-workflow'', ''calculate_metrics'',
          VDict [(''data_points'', VList [VInt 1, VInt 2, VInt 3, VInt 4, VInt 5]),
                 (''metric_type'', VStr ''average'')])]
   \<and> step_states (drive (worker_handlers rt) ctx
        (refresh_status (set_state (new_run build_metrics_signal_flow rid trigger)
           ''await_ready'' (succeeded_state payload)))) ''calculate''
     = Some (succeeded_state (VDict
         [(''metric_type'', VStr ''average''),
          (''result'', VFloat (FFinite 3)),
          (''data_points_count'', VInt 5),
          (''input_data'', VList [VInt 1, VInt 2, VInt 3, VInt 4, VInt 5])]))"
proof -
  have step: "step_named build_metrics_signal_flow ''calculate''
     = Some (task_step ''calculate'' ''simple-workflow'' ''calculate_metrics'' [''await_ready'']
         (VDict [(''data_points'', VList [VInt 1, VInt 2, VInt 3, VInt 4, VInt 5]),
                 (''metric_type'', VStr ''average'')]))"
    by (simp add: step_named_def build_metrics_signal_flow_def task_step_def
        wait_signal_step_def wait_timer_step_def)
  have res: "resolve (VDict [(''data_points'', VList [VInt 1, VInt 2, VInt 3, VInt 4, VInt 5]),
                     (''metric_type'', VStr ''average'')]) b
     = Inr (VDict [(''data_points'', VList [VInt 1, VInt 2, VInt 3, VInt 4, VInt 5]),
                   (''metric_type'', VStr ''average'')])"
    by (simp add: bind_exc_def)
  have inv: "invoke (worker_handlers rt) ''simple-workflow'' ''calculate_metrics''
       (VDict [(''data_points'', VList [VInt 1, VInt 2, VInt 3, VInt 4, VInt 5]),
               (''metric_type'', VStr ''average'')]) ctx
     = raised_or_returned
         (calculate_metrics rt ctx [VInt 1, VInt 2, VInt 3, VInt 4, VInt 5] ''average'')"
    by (simp add: invoke_calculate_metrics_one_to_five calculate_metrics_one_to_five
        raised_or_returned_def)
  show ?thesis
    unfolding exec_calculate_step drive_after_await_ready
    using step res inv calculate_metrics_one_to_five[of rt ctx]
    by (simp add: set_state_def log_call_def)
qed

theorem calculate_step_average_witness:
  "calls (drive
      (worker_handlers \<lparr>str_to_float = (\<lambda>s. Inl ''could not convert string to float''),
                        float_type_error = (\<lambda>v. ''float() argument must be a number''),
                        untyped_call = (\<lambda>h c kwargs. Inl ''unsupported argument type'')\<rparr>)
      \<lparr>ctx_truthy = True, ctx_str = ''ctx''\<rparr>
      (refresh_status (set_state (new_run build_metrics_signal_flow ''run-2'' [])
         ''await_ready'' (succeeded_state (VDict [])))))
     = [(''calculate'', ''simple-workflow'', ''calculate_metrics'',
          VDict [(''data_points'', VList [VInt 1, VInt 2, VInt 3, VInt 4, VInt 5]),
                 (''metric_type'', VStr ''average'')])]"
  using calculate_step_average_of_one_to_five
    [where rt = "\<lparr>str_to_float = (\<lambda>s. Inl ''could not convert string to float''),
          float_type_error = (\<lambda>v. ''float() argument must be a number''),
          untyped_call = (\<lambda>h c kwargs. Inl ''unsupported argument type'')\<rparr>"
       and ctx = "\<lparr>ctx_truthy = True, ctx_str = ''ctx''\<rparr>" and rid = "''run-2''"
       and trigger = "[]" and payload = "VDict []"]
  by simp

end
